theory Spec2Isabelle
  imports Complex_Main
begin

section \<open>REINFORCE for the inverted pendulum: a shallow embedding\<close>

text \<open>
  The notebook defines two classes, \<^verbatim>\<open>Policy_Network\<close> and \<^verbatim>\<open>REINFORCE\<close>, and a training
  driver that seeds the generators, constructs an agent and runs the episodes. The two
  classes are modelled here. Tensors of floating-point numbers are modelled as lists of
  real numbers, so every statement below is about exact arithmetic: rounding, overflow
  to infinity, underflow to zero and NaN are outside the model. What PyTorch does (the
  random generator, the optimiser, automatic differentiation) enters as the fields of
  the record \<open>torch\<close> or as a definition that says which library call it stands for.

  Each library call is a function of its arguments and of the generator state here.
  Whether two runs of the driver under one seed give the same parameters bit for bit is
  a property of PyTorch's generator and floating-point kernels; with functions in their
  place it holds of any program, so the driver is not modelled and nothing is stated
  about it.
\<close>

subsection \<open>Exceptions\<close>

text \<open>
  The source has no \<^verbatim>\<open>raise\<close> of its own. The exceptions a call can end with come from
  Python and PyTorch:
  \<^item> \<open>AttributeError\<close>: \<^verbatim>\<open>loss.backward()\<close> when \<^verbatim>\<open>loss\<close> is still the Python integer 0;
  \<^item> \<open>RuntimeError\<close>: \<^verbatim>\<open>nn.Linear\<close> when the last axis of its input is not \<^verbatim>\<open>in_features\<close>
    long, and broadcasting two tensors whose shapes do not fit;
  \<^item> \<open>ValueError\<close>: \<^verbatim>\<open>Normal(loc, scale)\<close> when an entry of \<^verbatim>\<open>scale\<close> is not positive.

  \<open>EmptyTrajectoryError\<close> and \<open>InvalidObservationShape\<close> are the exceptions the
  specification names for an update on no recorded step and for an observation of the
  wrong length. They are declared so that the specification's sentences can be written
  down; the source defines no such class and no path raises them.
\<close>

datatype error =
  AttributeError | RuntimeError | ValueError | EmptyTrajectoryError | InvalidObservationShape

subsection \<open>Policy network\<close>

text \<open>
  \<^verbatim>\<open>nn.Linear(in_features, out_features)\<close> holds a weight matrix of \<open>out_features\<close> rows of
  \<open>in_features\<close> entries and a bias of \<open>out_features\<close> entries. Applied to a vector, it
  checks the length of the vector and returns \<open>W x + b\<close>.
\<close>

record linear =
  in_features :: nat
  out_features :: nat
  weight :: "real list list"
  bias :: "real list"

definition dot :: "real list \<Rightarrow> real list \<Rightarrow> real" where
  "dot w x = sum_list (map2 (*) w x)"

definition linear_apply :: "linear \<Rightarrow> real list \<Rightarrow> error + real list" where
  "linear_apply l x =
     (if length x \<noteq> in_features l then Inl RuntimeError
      else Inr (map2 (\<lambda>row b. dot row x + b) (weight l) (bias l)))"

datatype module = Linear linear | Tanh

fun module_apply :: "module \<Rightarrow> real list \<Rightarrow> error + real list" where
  "module_apply (Linear l) x = linear_apply l x"
| "module_apply Tanh x = Inr (map tanh x)"

text \<open>\<^verbatim>\<open>nn.Sequential\<close>: the modules one after the other; an exception ends the chain.\<close>

fun sequential :: "module list \<Rightarrow> real list \<Rightarrow> error + real list" where
  "sequential [] x = Inr x"
| "sequential (m # ms) x =
     (case module_apply m x of Inl e \<Rightarrow> Inl e | Inr y \<Rightarrow> sequential ms y)"

record policy_network =
  shared_net :: "module list"
  policy_mean_net :: "module list"
  policy_stddev_net :: "module list"

text \<open>
  \<^verbatim>\<open>Policy_Network.forward\<close>, on one observation. \<^verbatim>\<open>x.float()\<close> is the identity on reals.
  The standard deviation is \<^verbatim>\<open>torch.log(1 + torch.exp(...))\<close>, entry by entry.
\<close>

definition forward :: "policy_network \<Rightarrow> real list \<Rightarrow> error + (real list \<times> real list)" where
  "forward nw x =
     (case sequential (shared_net nw) x of
        Inl e \<Rightarrow> Inl e
      | Inr shared_features \<Rightarrow>
          (case sequential (policy_mean_net nw) shared_features of
             Inl e \<Rightarrow> Inl e
           | Inr action_means \<Rightarrow>
               (case sequential (policy_stddev_net nw) shared_features of
                  Inl e \<Rightarrow> Inl e
                | Inr raw \<Rightarrow> Inr (action_means, map (\<lambda>v. ln (1 + exp v)) raw))))"

subsection \<open>The library: random generator and optimiser\<close>

text \<open>
  An entry of the log-prob buffer is a tensor with its history: \<open>data\<close> holds the values
  (one per action dimension) and \<open>grad_fn\<close> the observation and the sampled action the
  values were computed from, which is what \<^verbatim>\<open>backward\<close> differentiates through. The
  parameters the values also depend on are those of the agent's network: it changes in
  \<^verbatim>\<open>update\<close> only, which empties the buffer.
\<close>

record logprob =
  data :: "real list"
  grad_fn :: "real list \<times> real list"

text \<open>
  The library calls whose results the source only passes on:
  \<^item> \<open>rand\<close>, \<open>randn\<close>: one draw from the uniform distribution on the unit interval and
    from the standard normal distribution, with the generator state that follows;
  \<^item> \<open>AdamW\<close>: the optimiser state \<^verbatim>\<open>torch.optim.AdamW(net.parameters(), lr)\<close> starts from;
  \<^item> \<open>step\<close>: \<^verbatim>\<open>zero_grad(); loss.backward(); step()\<close> for a loss that is the sum of the
    given terms (log-prob entry and return), on the parameters and the optimiser state.
    The gradient buffers are cleared before every \<^verbatim>\<open>backward\<close>, so they carry nothing
    from one update to the next and are not part of the state.
\<close>

record ('g, 'o) torch =
  rand :: "'g \<Rightarrow> real \<times> 'g"
  randn :: "'g \<Rightarrow> real \<times> 'g"
  AdamW :: "policy_network \<Rightarrow> real \<Rightarrow> 'o"
  step :: "(logprob \<times> real) list \<Rightarrow> policy_network \<times> 'o \<Rightarrow> policy_network \<times> 'o"

subsection \<open>Constructing the network\<close>

text \<open>
  \<^verbatim>\<open>nn.Linear\<close> initialises the weight, row by row, and then the bias with draws from the
  uniform distribution on \<open>[-k, k]\<close>, where \<open>k = 1 / sqrt in_features\<close> (and 0 when there
  is no input).
\<close>

fun uniform_fill :: "('g \<Rightarrow> real \<times> 'g) \<Rightarrow> real \<Rightarrow> nat \<Rightarrow> 'g \<Rightarrow> real list \<times> 'g" where
  "uniform_fill rnd k 0 g = ([], g)"
| "uniform_fill rnd k (Suc n) g =
     (let (u, g1) = rnd g; (us, g2) = uniform_fill rnd k n g1
      in (((2 * u - 1) * k) # us, g2))"

fun uniform_rows :: "('g \<Rightarrow> real \<times> 'g) \<Rightarrow> real \<Rightarrow> nat \<Rightarrow> nat \<Rightarrow> 'g \<Rightarrow> real list list \<times> 'g" where
  "uniform_rows rnd k 0 n g = ([], g)"
| "uniform_rows rnd k (Suc m) n g =
     (let (row, g1) = uniform_fill rnd k n g; (rows, g2) = uniform_rows rnd k m n g1
      in (row # rows, g2))"

definition Linear_init :: "('g \<Rightarrow> real \<times> 'g) \<Rightarrow> nat \<Rightarrow> nat \<Rightarrow> 'g \<Rightarrow> linear \<times> 'g" where
  "Linear_init rnd n_in n_out g =
     (let k = (if n_in = 0 then 0 else 1 / sqrt (real n_in));
          (w, g1) = uniform_rows rnd k n_out n_in g;
          (b, g2) = uniform_fill rnd k n_out g1
      in (\<lparr>in_features = n_in, out_features = n_out, weight = w, bias = b\<rparr>, g2))"

definition Policy_Network_init ::
  "('g \<Rightarrow> real \<times> 'g) \<Rightarrow> nat \<Rightarrow> nat \<Rightarrow> 'g \<Rightarrow> policy_network \<times> 'g" where
  "Policy_Network_init rnd obs_space_dims action_space_dims g =
     (let hidden_space1 = 16;
          hidden_space2 = 32;
          (l1, g1) = Linear_init rnd obs_space_dims hidden_space1 g;
          (l2, g2) = Linear_init rnd hidden_space1 hidden_space2 g1;
          (lm, g3) = Linear_init rnd hidden_space2 action_space_dims g2;
          (ls, g4) = Linear_init rnd hidden_space2 action_space_dims g3
      in (\<lparr>shared_net = [Linear l1, Tanh, Linear l2, Tanh],
           policy_mean_net = [Linear lm],
           policy_stddev_net = [Linear ls]\<rparr>, g4))"

text \<open>
  The shape \<^verbatim>\<open>Policy_Network(obs_space_dims, action_space_dims)\<close> gives a network, and
  that an optimiser step, which changes the entries of the weights only, keeps.
\<close>

definition linear_shape :: "nat \<Rightarrow> nat \<Rightarrow> linear \<Rightarrow> bool" where
  "linear_shape n_in n_out l \<longleftrightarrow>
     in_features l = n_in \<and> out_features l = n_out \<and>
     length (weight l) = n_out \<and> list_all (\<lambda>row. length row = n_in) (weight l) \<and>
     length (bias l) = n_out"

fun shared_shape :: "nat \<Rightarrow> module list \<Rightarrow> bool" where
  "shared_shape n [Linear l1, Tanh, Linear l2, Tanh] =
     (linear_shape n 16 l1 \<and> linear_shape 16 32 l2)"
| "shared_shape n _ = False"

fun head_shape :: "nat \<Rightarrow> module list \<Rightarrow> bool" where
  "head_shape m [Linear l] = linear_shape 32 m l"
| "head_shape m _ = False"

definition net_shape :: "nat \<Rightarrow> nat \<Rightarrow> policy_network \<Rightarrow> bool" where
  "net_shape obs_space_dims action_space_dims nw \<longleftrightarrow>
     shared_shape obs_space_dims (shared_net nw) \<and>
     head_shape action_space_dims (policy_mean_net nw) \<and>
     head_shape action_space_dims (policy_stddev_net nw)"

subsection \<open>The normal distribution\<close>

record normal =
  loc :: "real list"
  scale :: "real list"

text \<open>
  \<^verbatim>\<open>Normal(loc, scale)\<close> broadcasts its two arguments to one shape and then validates
  them: every scale must be positive.
\<close>

definition broadcast_all :: "real list \<Rightarrow> real list \<Rightarrow> error + (real list \<times> real list)" where
  "broadcast_all l s =
     (if length l = length s then Inr (l, s)
      else if length l = 1 then Inr (replicate (length s) (hd l), s)
      else if length s = 1 then Inr (l, replicate (length l) (hd s))
      else Inl RuntimeError)"

definition Normal :: "real list \<Rightarrow> real list \<Rightarrow> error + normal" where
  "Normal l s =
     (case broadcast_all l s of
        Inl e \<Rightarrow> Inl e
      | Inr (l', s') \<Rightarrow>
          if list_all (\<lambda>x. 0 < x) s' then Inr \<lparr>loc = l', scale = s'\<rparr> else Inl ValueError)"

text \<open>\<^verbatim>\<open>distrib.sample()\<close>: one standard normal draw per entry, scaled and shifted.\<close>

fun normal_draws :: "('g \<Rightarrow> real \<times> 'g) \<Rightarrow> real list \<Rightarrow> real list \<Rightarrow> 'g \<Rightarrow> real list \<times> 'g" where
  "normal_draws rnd (m # ms) (s # ss) g =
     (let (z, g1) = rnd g; (rest, g2) = normal_draws rnd ms ss g1
      in ((m + s * z) # rest, g2))"
| "normal_draws rnd _ _ g = ([], g)"

definition sample :: "('g \<Rightarrow> real \<times> 'g) \<Rightarrow> normal \<Rightarrow> 'g \<Rightarrow> real list \<times> 'g" where
  "sample rnd d g = normal_draws rnd (loc d) (scale d) g"

text \<open>\<^verbatim>\<open>distrib.log_prob(value)\<close>: the logarithm of the density, entry by entry.\<close>

definition log_density :: "real \<Rightarrow> real \<Rightarrow> real \<Rightarrow> real" where
  "log_density m s v = - ((v - m)\<^sup>2) / (2 * s\<^sup>2) - ln s - ln (sqrt (2 * pi))"

definition log_prob :: "normal \<Rightarrow> real list \<Rightarrow> real list" where
  "log_prob d v = map (\<lambda>(m, s, x). log_density m s x) (zip (loc d) (zip (scale d) v))"

subsection \<open>The agent\<close>

record 'o agent =
  learning_rate :: real
  gamma :: real
  eps :: real
  probs :: "logprob list"
  rewards :: "real list"
  net :: policy_network
  optimizer :: 'o

definition REINFORCE_init :: "('g, 'o) torch \<Rightarrow> nat \<Rightarrow> nat \<Rightarrow> 'g \<Rightarrow> 'o agent \<times> 'g" where
  "REINFORCE_init lib obs_space_dims action_space_dims g =
     (let (nw, g1) = Policy_Network_init (rand lib) obs_space_dims action_space_dims g
      in (\<lparr>learning_rate = 1 / 10 ^ 4, gamma = 99 / 100, eps = 1 / 10 ^ 6,
           probs = [], rewards = [], net = nw,
           optimizer = AdamW lib nw (1 / 10 ^ 4)\<rparr>, g1))"

text \<open>
  \<^verbatim>\<open>sample_action\<close>. The source wraps the observation into a batch of one
  (\<^verbatim>\<open>np.array([state])\<close>) and takes row 0 of both outputs; the layers act on the last
  axis, so the model passes the observation itself. The result is the sampled action,
  the agent with the new entry at the end of \<open>probs\<close>, and the generator state. When an
  exception is raised, nothing has been assigned yet and the agent is as before.
\<close>

definition sample_action ::
  "('g, 'o) torch \<Rightarrow> 'o agent \<Rightarrow> real list \<Rightarrow> 'g \<Rightarrow> error + (real list \<times> 'o agent \<times> 'g)" where
  "sample_action lib a state g =
     (case forward (net a) state of
        Inl e \<Rightarrow> Inl e
      | Inr (action_means, action_stddevs) \<Rightarrow>
          (case Normal (map (\<lambda>m. m + eps a) action_means)
                       (map (\<lambda>s. s + eps a) action_stddevs) of
             Inl e \<Rightarrow> Inl e
           | Inr distrib \<Rightarrow>
               (let (action, g') = sample (randn lib) distrib g;
                    prob = \<lparr>data = log_prob distrib action, grad_fn = (state, action)\<rparr>
                in Inr (action, a\<lparr>probs := probs a @ [prob]\<rparr>, g'))))"

subsection \<open>The update\<close>

text \<open>
  The loop over \<^verbatim>\<open>self.rewards[::-1]\<close>; \<^verbatim>\<open>gs.insert(0, running_g)\<close> puts the new value in
  front.
\<close>

fun returns_loop :: "real \<Rightarrow> real list \<Rightarrow> real \<times> real list \<Rightarrow> real \<times> real list" where
  "returns_loop gm [] (running_g, gs) = (running_g, gs)"
| "returns_loop gm (R # Rs) (running_g, gs) =
     (let running_g' = R + gm * running_g
      in returns_loop gm Rs (running_g', running_g' # gs))"

definition discounted_returns :: "real \<Rightarrow> real list \<Rightarrow> real list" where
  "discounted_returns gm rs = snd (returns_loop gm (rev rs) (0, []))"

text \<open>
  \<^verbatim>\<open>loss\<close> starts as the Python integer 0 and becomes a tensor with the first term added.
  \<^verbatim>\<open>log_prob.mean()\<close> is the mean over the action dimensions; of a tensor with no entry
  it is NaN, which the reals do not have, so statements about the value of the loss are
  made for entries that are not empty.
\<close>

datatype py_scalar = PyInt int | Tensor real

definition tensor_mean :: "real list \<Rightarrow> real" where
  "tensor_mean xs = sum_list xs / real (length xs)"

fun scalar_add :: "py_scalar \<Rightarrow> real \<Rightarrow> py_scalar" where
  "scalar_add (PyInt i) t = Tensor (real_of_int i + t)"
| "scalar_add (Tensor x) t = Tensor (x + t)"

fun loss_loop :: "py_scalar \<Rightarrow> (logprob \<times> real) list \<Rightarrow> py_scalar" where
  "loss_loop loss [] = loss"
| "loss_loop loss ((lp, delta) # rest) =
     loss_loop (scalar_add loss (tensor_mean (data lp) * delta * (- 1))) rest"

definition update_loss :: "'o agent \<Rightarrow> py_scalar" where
  "update_loss a =
     (let gs = discounted_returns (gamma a) (rewards a);
          deltas = gs
      in loss_loop (PyInt 0) (zip (probs a) deltas))"

text \<open>
  \<^verbatim>\<open>update\<close>. \<^verbatim>\<open>loss.backward()\<close> on the integer raises; the two assignments that empty
  the buffers come after it and are not reached then.
\<close>

definition update :: "('g, 'o) torch \<Rightarrow> 'o agent \<Rightarrow> error + 'o agent" where
  "update lib a =
     (let gs = discounted_returns (gamma a) (rewards a);
          deltas = gs;
          terms = zip (probs a) deltas
      in case loss_loop (PyInt 0) terms of
           PyInt i \<Rightarrow> Inl AttributeError
         | Tensor v \<Rightarrow>
             (let (nw, opt) = step lib terms (net a, optimizer a)
              in Inr (a\<lparr>probs := [], rewards := [], net := nw, optimizer := opt\<rparr>)))"

subsection \<open>The specification's return-to-go\<close>

text \<open>
  Follows the words of the specification, not the source: the return of step \<open>t\<close>
  (counted from 0) is the sum of the later rewards, each discounted by its distance.
\<close>

definition return_to_go :: "real \<Rightarrow> real list \<Rightarrow> nat \<Rightarrow> real" where
  "return_to_go gm rs t = (\<Sum>k = t..<length rs. gm ^ (k - t) * rs ! k)"

subsection \<open>The invariant of a constructed agent\<close>

text \<open>
  What \<^verbatim>\<open>REINFORCE(obs_space_dims, action_space_dims)\<close> establishes and no method
  assigns to afterwards: the three hyperparameters and the shape of the network.
\<close>

definition configured :: "nat \<Rightarrow> nat \<Rightarrow> 'o agent \<Rightarrow> bool" where
  "configured obs_space_dims action_space_dims a \<longleftrightarrow>
     net_shape obs_space_dims action_space_dims (net a) \<and>
     learning_rate a = 1 / 10 ^ 4 \<and> gamma a = 99 / 100 \<and> eps a = 1 / 10 ^ 6"

subsection \<open>Notions used in the proofs\<close>

text \<open>
  The return of a whole reward sequence as a right fold, the list of the returns of all
  its suffixes, and the number a Python scalar stands for.
\<close>

definition tail_return :: "real \<Rightarrow> real list \<Rightarrow> real" where
  "tail_return gm rs = foldr (\<lambda>r acc. r + gm * acc) rs 0"

definition tail_returns :: "real \<Rightarrow> real list \<Rightarrow> real list" where
  "tail_returns gm rs = map (\<lambda>t. tail_return gm (drop t rs)) [0..<length rs]"

fun scalar_val :: "py_scalar \<Rightarrow> real" where
  "scalar_val (PyInt i) = real_of_int i"
| "scalar_val (Tensor x) = x"

subsection \<open>Concrete inputs\<close>

text \<open>
  A library whose generator is a counter, whose draws are constant and whose optimiser
  counts its steps; the agent \<^verbatim>\<open>REINFORCE(n, m)\<close> constructed with it; and a log-prob entry
  for one action dimension.
\<close>

definition example_torch :: "(nat, nat) torch" where
  "example_torch =
     \<lparr>rand = (\<lambda>g. (1 / 2, Suc g)),
      randn = (\<lambda>g. (0, Suc g)),
      AdamW = (\<lambda>nw lr. 0),
      step = (\<lambda>terms (nw, opt). (nw, Suc opt))\<rparr>"

definition example_agent :: "nat \<Rightarrow> nat \<Rightarrow> nat agent" where
  "example_agent n m = fst (REINFORCE_init example_torch n m 0)"

definition example_prob :: "real \<Rightarrow> logprob" where
  "example_prob v = \<lparr>data = [v], grad_fn = ([0, 0, 0, 0], [0])\<rparr>"

section \<open>Properties\<close>

subsection \<open>Discounted returns\<close>

lemma tail_returns_Cons:
  "tail_returns gm (r # rs) = tail_return gm (r # rs) # tail_returns gm rs"
  by (simp add: tail_returns_def upt_conv_Cons map_Suc_upt[symmetric] del: upt_Suc)

lemma returns_loop_rev:
  "returns_loop gm (rev pre) (tail_return gm suf, tail_returns gm suf)
     = (tail_return gm (pre @ suf), tail_returns gm (pre @ suf))"
proof (induction pre arbitrary: suf rule: rev_induct)
  case Nil
  show ?case by simp
next
  case (snoc x pre)
  have "returns_loop gm (rev (pre @ [x])) (tail_return gm suf, tail_returns gm suf)
      = returns_loop gm (rev pre) (tail_return gm (x # suf), tail_returns gm (x # suf))"
    by (simp add: tail_returns_Cons Let_def tail_return_def)
  then show ?case using snoc.IH[of "x # suf"] by simp
qed

lemma discounted_returns_tail: "discounted_returns gm rs = tail_returns gm rs"
  using returns_loop_rev[of gm rs "[]"]
  by (simp add: discounted_returns_def tail_return_def tail_returns_def)

lemma tail_return_sum: "tail_return gm rs = (\<Sum>k<length rs. gm ^ k * rs ! k)"
proof (induction rs)
  case Nil
  show ?case by (simp add: tail_return_def)
next
  case (Cons r rs)
  have "tail_return gm (r # rs) = r + gm * tail_return gm rs"
    by (simp add: tail_return_def)
  also have "\<dots> = r + gm * (\<Sum>k<length rs. gm ^ k * rs ! k)"
    by (simp add: Cons.IH)
  also have "\<dots> = (\<Sum>k<length (r # rs). gm ^ k * (r # rs) ! k)"
    by (simp add: sum.lessThan_Suc_shift sum_distrib_left mult.assoc del: sum.lessThan_Suc)
  finally show ?case .
qed

lemma tail_return_drop:
  assumes t: "t \<le> length rs"
  shows "tail_return gm (drop t rs) = return_to_go gm rs t"
proof -
  have "tail_return gm (drop t rs) = (\<Sum>k<length rs - t. gm ^ k * rs ! (t + k))"
    by (simp add: tail_return_sum t)
  also have "\<dots> = (\<Sum>k = t..<length rs. gm ^ (k - t) * rs ! k)"
    by (rule sum.reindex_bij_witness[where i = "\<lambda>k. k - t" and j = "\<lambda>k. t + k"]) (use t in auto)
  finally show ?thesis by (simp add: return_to_go_def)
qed

lemma discounted_returns_closed:
  "discounted_returns gm rs = map (return_to_go gm rs) [0..<length rs]"
  by (simp add: discounted_returns_tail tail_returns_def tail_return_drop)

lemma length_discounted_returns: "length (discounted_returns gm rs) = length rs"
  by (simp add: discounted_returns_closed)

lemma discounted_returns_Cons:
  "discounted_returns gm (r # rs) =
     (r + gm * (case discounted_returns gm rs of [] \<Rightarrow> 0 | G # _ \<Rightarrow> G)) # discounted_returns gm rs"
proof -
  have "tail_return gm rs = (case tail_returns gm rs of [] \<Rightarrow> 0 | G # _ \<Rightarrow> G)"
    by (cases rs) (simp_all add: tail_returns_Cons, simp_all add: tail_returns_def tail_return_def)
  then show ?thesis
    by (simp add: discounted_returns_tail tail_returns_Cons) (simp add: tail_return_def)
qed

lemma loss_loop_value:
  "loss_loop l ts =
     (if ts = [] then l
      else Tensor (scalar_val l - (\<Sum>t<length ts. tensor_mean (data (fst (ts ! t))) * snd (ts ! t))))"
proof (induction ts arbitrary: l)
  case Nil
  show ?case by simp
next
  case (Cons x ts)
  obtain lp d where x: "x = (lp, d)" by (cases x)
  have v: "scalar_val (scalar_add l y) = scalar_val l + y" for y
    by (cases l) simp_all
  show ?case
  proof (cases "ts = []")
    case True
    then show ?thesis by (cases l) (simp_all add: x)
  next
    case False
    then show ?thesis
      by (simp add: x Cons.IH v sum.lessThan_Suc_shift del: sum.lessThan_Suc)
  qed
qed

lemma update_loss_value:
  "update_loss a =
     (if probs a = [] \<or> rewards a = [] then PyInt 0
      else Tensor (- (\<Sum>t<min (length (probs a)) (length (rewards a)).
                      tensor_mean (data (probs a ! t)) * return_to_go (gamma a) (rewards a) t)))"
  by (simp add: update_loss_def loss_loop_value length_discounted_returns
      discounted_returns_closed)

subsection \<open>Network shapes and the forward pass\<close>

lemma length_uniform_fill: "length (fst (uniform_fill rnd k n g)) = n"
  by (induction n arbitrary: g) (simp_all add: split_beta Let_def)

lemma uniform_rows_shape:
  "length (fst (uniform_rows rnd k m n g)) = m \<and>
   list_all (\<lambda>row. length row = n) (fst (uniform_rows rnd k m n g))"
  by (induction m arbitrary: g) (simp_all add: split_beta Let_def length_uniform_fill)

lemma Linear_init_shape: "linear_shape n_in n_out (fst (Linear_init rnd n_in n_out g))"
  by (simp add: Linear_init_def linear_shape_def split_beta Let_def
      length_uniform_fill uniform_rows_shape)

lemma Policy_Network_init_shape:
  "net_shape obs_space_dims action_space_dims
     (fst (Policy_Network_init rnd obs_space_dims action_space_dims g))"
  by (simp add: Policy_Network_init_def net_shape_def split_beta Let_def Linear_init_shape)

lemma REINFORCE_init_fields:
  "probs (fst (REINFORCE_init lib n m g)) = []"
  "rewards (fst (REINFORCE_init lib n m g)) = []"
  "eps (fst (REINFORCE_init lib n m g)) = 1 / 10 ^ 6"
  "gamma (fst (REINFORCE_init lib n m g)) = 99 / 100"
  "learning_rate (fst (REINFORCE_init lib n m g)) = 1 / 10 ^ 4"
  "net (fst (REINFORCE_init lib n m g)) = fst (Policy_Network_init (rand lib) n m g)"
  by (simp_all add: REINFORCE_init_def split_beta Let_def)

lemma REINFORCE_init_configured: "configured n m (fst (REINFORCE_init lib n m g))"
  by (simp add: configured_def REINFORCE_init_fields Policy_Network_init_shape)

lemma net_shapeD:
  assumes "net_shape n m nw"
  obtains l1 l2 lm ls where
    "shared_net nw = [Linear l1, Tanh, Linear l2, Tanh]"
    "policy_mean_net nw = [Linear lm]" "policy_stddev_net nw = [Linear ls]"
    "linear_shape n 16 l1" "linear_shape 16 32 l2" "linear_shape 32 m lm" "linear_shape 32 m ls"
proof -
  from assms have s: "shared_shape n (shared_net nw)" and hm: "head_shape m (policy_mean_net nw)"
    and hs: "head_shape m (policy_stddev_net nw)"
    by (simp_all add: net_shape_def)
  from s obtain l1 l2 where "shared_net nw = [Linear l1, Tanh, Linear l2, Tanh]"
    "linear_shape n 16 l1" "linear_shape 16 32 l2"
    by (auto elim: shared_shape.elims)
  moreover from hm obtain lm where "policy_mean_net nw = [Linear lm]" "linear_shape 32 m lm"
    by (auto elim: head_shape.elims)
  moreover from hs obtain ls where "policy_stddev_net nw = [Linear ls]" "linear_shape 32 m ls"
    by (auto elim: head_shape.elims)
  ultimately show thesis using that by blast
qed

lemma linear_apply_shape:
  assumes "linear_shape n_in n_out l"
  shows "linear_apply l x =
           (if length x \<noteq> n_in then Inl RuntimeError
            else Inr (map2 (\<lambda>row b. dot row x + b) (weight l) (bias l)))"
    and "length (map2 (\<lambda>row b. dot row x + b) (weight l) (bias l)) = n_out"
  using assms by (simp_all add: linear_apply_def linear_shape_def)

text \<open>
  Over the reals the transform of the raw scale is positive. The source evaluates it in
  32-bit floating point, where \<^verbatim>\<open>exp\<close> underflows to 0 for very negative arguments and
  overflows for large ones; the reals say nothing about that.
\<close>

lemma softplus_pos: "0 < ln (1 + exp (v::real))"
  by (simp add: ln_gt_zero)

lemma forward_shape:
  assumes "net_shape n m nw"
  shows "length x \<noteq> n \<Longrightarrow> forward nw x = Inl RuntimeError"
    and "length x = n \<Longrightarrow> \<exists>means stds. forward nw x = Inr (means, stds) \<and>
           length means = m \<and> length stds = m \<and> list_all (\<lambda>s. 0 < s) stds"
proof -
  obtain l1 l2 lm ls where nw:
    "shared_net nw = [Linear l1, Tanh, Linear l2, Tanh]"
    "policy_mean_net nw = [Linear lm]" "policy_stddev_net nw = [Linear ls]"
    and sh: "linear_shape n 16 l1" "linear_shape 16 32 l2" "linear_shape 32 m lm"
      "linear_shape 32 m ls"
    using assms by (rule net_shapeD)
  show "length x \<noteq> n \<Longrightarrow> forward nw x = Inl RuntimeError"
    by (simp add: forward_def nw linear_apply_shape(1)[OF sh(1)])
  assume x: "length x = n"
  define y1 where "y1 = map2 (\<lambda>row b. dot row x + b) (weight l1) (bias l1)"
  define h1 where "h1 = map tanh y1"
  define y2 where "y2 = map2 (\<lambda>row b. dot row h1 + b) (weight l2) (bias l2)"
  define h2 where "h2 = map tanh y2"
  have len1: "length h1 = 16"
    using linear_apply_shape(2)[OF sh(1), of x] by (simp add: h1_def y1_def)
  have len2: "length h2 = 32"
    using linear_apply_shape(2)[OF sh(2), of h1] by (simp add: h2_def y2_def)
  have a1: "linear_apply l1 x = Inr y1"
    using linear_apply_shape(1)[OF sh(1), of x] x by (simp add: y1_def)
  have a2: "linear_apply l2 h1 = Inr y2"
    using linear_apply_shape(1)[OF sh(2), of h1] len1 by (simp add: y2_def)
  have shared: "sequential (shared_net nw) x = Inr h2"
    unfolding nw by (simp add: a1 a2 h1_def[symmetric] h2_def[symmetric])
  define ym where "ym = map2 (\<lambda>row b. dot row h2 + b) (weight lm) (bias lm)"
  define ys where "ys = map2 (\<lambda>row b. dot row h2 + b) (weight ls) (bias ls)"
  have lenm: "length ym = m"
    using linear_apply_shape(2)[OF sh(3), of h2] by (simp add: ym_def)
  have lens: "length ys = m"
    using linear_apply_shape(2)[OF sh(4), of h2] by (simp add: ys_def)
  have a3: "linear_apply lm h2 = Inr ym"
    using linear_apply_shape(1)[OF sh(3), of h2] len2 by (simp add: ym_def)
  have a4: "linear_apply ls h2 = Inr ys"
    using linear_apply_shape(1)[OF sh(4), of h2] len2 by (simp add: ys_def)
  have fw: "forward nw x = Inr (ym, map (\<lambda>v. ln (1 + exp v)) ys)"
    unfolding forward_def shared by (simp add: nw(2,3) a3 a4)
  show "\<exists>means stds. forward nw x = Inr (means, stds) \<and>
           length means = m \<and> length stds = m \<and> list_all (\<lambda>s. 0 < s) stds"
    unfolding fw by (simp add: list_all_iff softplus_pos lenm lens)
qed

lemma length_normal_draws:
  "length (fst (normal_draws rnd ms ss g)) = min (length ms) (length ss)"
proof (induction ms arbitrary: ss g)
  case Nil
  show ?case by simp
next
  case (Cons m ms)
  show ?case by (cases ss) (simp_all add: split_beta Let_def Cons.IH)
qed

lemma sample_action_Inr:
  assumes "sample_action lib a state g = Inr (action, a', g')"
  shows "\<exists>prob. a' = a\<lparr>probs := probs a @ [prob]\<rparr>"
  using assms
  by (auto simp: sample_action_def Let_def split_beta split: sum.splits)

lemma sample_action_total:
  assumes sh: "net_shape n m (net a)" and x: "length state = n" and e: "0 \<le> eps a"
  shows "\<exists>action a' g'. sample_action lib a state g = Inr (action, a', g') \<and> length action = m"
proof -
  obtain means stds where fw: "forward (net a) state = Inr (means, stds)"
    and len: "length means = m" "length stds = m" and pos: "list_all (\<lambda>s. 0 < s) stds"
    using forward_shape(2)[OF sh x] by blast
  have pos': "list_all (\<lambda>x. 0 < x) (map (\<lambda>s. s + eps a) stds)"
    using pos e by (auto simp: list_all_iff intro: add_pos_nonneg)
  have nrm: "Normal (map (\<lambda>m. m + eps a) means) (map (\<lambda>s. s + eps a) stds)
           = Inr \<lparr>loc = map (\<lambda>m. m + eps a) means, scale = map (\<lambda>s. s + eps a) stds\<rparr>"
    using pos' by (simp add: Normal_def broadcast_all_def len)
  show ?thesis
    by (simp add: sample_action_def fw nrm split_beta Let_def sample_def
        length_normal_draws len)
qed

lemma sample_action_configured:
  assumes "sample_action lib a state g = Inr (action, a', g')" and "configured n m a"
  shows "configured n m a'"
proof -
  from sample_action_Inr[OF assms(1)] obtain prob where "a' = a\<lparr>probs := probs a @ [prob]\<rparr>"
    by blast
  with assms(2) show ?thesis by (simp add: configured_def)
qed

lemma sample_action_mismatch:
  assumes sh: "net_shape n m (net a)" and x: "length state \<noteq> n"
  shows "sample_action lib a state g = Inl RuntimeError"
  by (simp add: sample_action_def forward_shape(1)[OF sh x])

subsection \<open>The update\<close>

lemma discounted_returns_Nil_iff: "discounted_returns gm rs = [] \<longleftrightarrow> rs = []"
  using length_discounted_returns[of gm rs] by (metis length_0_conv)

lemma update_cases:
  "update lib a =
     (if probs a = [] \<or> rewards a = [] then Inl AttributeError
      else Inr (a\<lparr>probs := [], rewards := [],
                 net := fst (step lib (zip (probs a) (discounted_returns (gamma a) (rewards a)))
                              (net a, optimizer a)),
                 optimizer := snd (step lib (zip (probs a) (discounted_returns (gamma a) (rewards a)))
                              (net a, optimizer a))\<rparr>))"
proof -
  define ts where "ts = zip (probs a) (discounted_returns (gamma a) (rewards a))"
  have z: "ts = [] \<longleftrightarrow> probs a = [] \<or> rewards a = []"
    by (simp add: ts_def discounted_returns_Nil_iff)
  have u: "update lib a =
      (case loss_loop (PyInt 0) ts of
         PyInt i \<Rightarrow> Inl AttributeError
       | Tensor v \<Rightarrow> Inr (a\<lparr>probs := [], rewards := [],
                 net := fst (step lib ts (net a, optimizer a)),
                 optimizer := snd (step lib ts (net a, optimizer a))\<rparr>))"
    by (simp add: update_def Let_def ts_def split_beta split: py_scalar.splits)
  show ?thesis
    unfolding u ts_def[symmetric] using z by (simp add: loss_loop_value)
qed

lemma update_configured:
  assumes "update lib a = Inr a'" and "configured n m a"
    and "net_shape n m (fst (step lib (zip (probs a) (discounted_returns (gamma a) (rewards a)))
                               (net a, optimizer a)))"
  shows "configured n m a'"
  using assms by (auto simp: update_cases configured_def split: if_splits)

lemma example_agent_fields:
  "probs (example_agent n m) = []" "rewards (example_agent n m) = []"
  "eps (example_agent n m) = 1 / 10 ^ 6" "net_shape n m (net (example_agent n m))"
  using REINFORCE_init_configured[of n m example_torch 0]
  by (simp_all add: example_agent_def REINFORCE_init_fields configured_def)

lemma update_by_loss:
  "update lib a =
     (case update_loss a of
        PyInt i \<Rightarrow> Inl AttributeError
      | Tensor v \<Rightarrow>
          Inr (a\<lparr>probs := [], rewards := [],
                 net := fst (step lib (zip (probs a) (discounted_returns (gamma a) (rewards a)))
                              (net a, optimizer a)),
                 optimizer := snd (step lib (zip (probs a) (discounted_returns (gamma a) (rewards a)))
                              (net a, optimizer a))\<rparr>))"
  by (simp add: update_def update_loss_def Let_def split_beta split: py_scalar.splits)

section \<open>The claims\<close>

text \<open>
  C1. For every reward sequence and every discount factor, the reverse scan of
  \<^verbatim>\<open>update\<close> returns, for each step \<open>t\<close>, the sum of the rewards from \<open>t\<close> on, the reward of
  step \<open>k\<close> weighted by the discount to the power \<open>k - t\<close>. The return of the last step is
  its reward, and the return of any other step is its reward plus the discounted return
  of the next step. The values are handed to the loss as they are: \<^verbatim>\<open>deltas\<close> is the list
  of returns, neither normalised nor shifted by a baseline. For the rewards 1, 1, 1 and
  the discount 0.99 the returns are 2.9701, 1.99 and 1.
\<close>

theorem discounted_returns_correct:
  "discounted_returns gm rs = map (return_to_go gm rs) [0..<length rs] \<and>
   discounted_returns gm [r] = [r] \<and>
   discounted_returns gm (r # rs) =
     (r + gm * (case discounted_returns gm rs of [] \<Rightarrow> 0 | G # _ \<Rightarrow> G))
       # discounted_returns gm rs \<and>
   discounted_returns (99 / 100) [1, 1, 1] = [29701 / 10000, 199 / 100, 1] \<and>
   update_loss a =
     loss_loop (PyInt 0) (zip (probs a) (discounted_returns (gamma a) (rewards a)))"
proof (intro conjI)
  show "discounted_returns gm rs = map (return_to_go gm rs) [0..<length rs]"
    by (rule discounted_returns_closed)
  show "discounted_returns gm [r] = [r]"
    by (simp add: discounted_returns_def)
  show "discounted_returns gm (r # rs) =
     (r + gm * (case discounted_returns gm rs of [] \<Rightarrow> 0 | G # _ \<Rightarrow> G))
       # discounted_returns gm rs"
    by (rule discounted_returns_Cons)
  show "discounted_returns (99 / 100) [1, 1, 1] = [29701 / 10000, 199 / 100, 1]"
    by (simp add: discounted_returns_def Let_def)
  show "update_loss a =
     loss_loop (PyInt 0) (zip (probs a) (discounted_returns (gamma a) (rewards a)))"
    by (simp add: update_loss_def Let_def)
qed



text \<open>
  C3, as the specification states it: an update on two empty buffers is a no-op or
  signals EmptyTrajectoryError, and fails in no other way. The agent just constructed
  has two empty buffers; its update is neither.
\<close>

theorem update_empty_counterexample:
  "probs (example_agent 4 1) = [] \<and> rewards (example_agent 4 1) = [] \<and>
   \<not> (update example_torch (example_agent 4 1) = Inr (example_agent 4 1) \<or>
      update example_torch (example_agent 4 1) = Inl EmptyTrajectoryError)"
  by (simp add: update_cases example_agent_fields)

text \<open>
  C3, amended. With both buffers empty the loop over the pairs adds no term, \<^verbatim>\<open>loss\<close> is
  still the integer 0, and \<^verbatim>\<open>loss.backward()\<close> raises AttributeError. The call does not
  complete: no optimiser step is applied and the assignments that empty the buffers are
  not reached.
\<close>

theorem update_empty_raises:
  assumes "probs a = []" and "rewards a = []"
  shows "update lib a = Inl AttributeError"
  using assms by (simp add: update_cases)

theorem update_empty_raises_witness:
  "probs (example_agent 4 1) = [] \<and> rewards (example_agent 4 1) = [] \<and>
   update example_torch (example_agent 4 1) = Inl AttributeError"
  using update_empty_raises[of "example_agent 4 1" example_torch]
  by (simp add: example_agent_fields)

text \<open>
  C4. Whenever \<^verbatim>\<open>update\<close> returns, both buffers of the agent it leaves are empty, whatever
  their lengths were; and it does return when the two buffers have the same length and
  hold at least one step, for instance 1, 10 or 500 steps.
\<close>

theorem update_clears_buffers:
  "(update lib a = Inr a' \<longrightarrow> probs a' = [] \<and> rewards a' = []) \<and>
   (length (probs a) = length (rewards a) \<and> 0 < length (probs a) \<longrightarrow>
      (\<exists>a'. update lib a = Inr a' \<and> length (probs a') = 0 \<and> length (rewards a') = 0))"
proof (intro conjI impI)
  assume "update lib a = Inr a'"
  then show "probs a' = []" and "rewards a' = []"
    by (auto simp: update_cases split: if_splits)
next
  assume "length (probs a) = length (rewards a) \<and> 0 < length (probs a)"
  then have "probs a \<noteq> []" and "rewards a \<noteq> []" by auto
  then show "\<exists>a'. update lib a = Inr a' \<and> length (probs a') = 0 \<and> length (rewards a') = 0"
    by (simp add: update_cases)
qed

theorem update_clears_buffers_witness:
  "(\<exists>a'. update example_torch
            ((example_agent 4 1)\<lparr>probs := replicate 1 (example_prob (- 1 / 2)),
                                  rewards := replicate 1 1\<rparr>) = Inr a' \<and>
         length (probs a') = 0 \<and> length (rewards a') = 0) \<and>
   (\<exists>a'. update example_torch
            ((example_agent 4 1)\<lparr>probs := replicate 10 (example_prob (- 1 / 2)),
                                  rewards := replicate 10 1\<rparr>) = Inr a' \<and>
         length (probs a') = 0 \<and> length (rewards a') = 0) \<and>
   (\<exists>a'. update example_torch
            ((example_agent 4 1)\<lparr>probs := replicate 500 (example_prob (- 1 / 2)),
                                  rewards := replicate 500 1\<rparr>) = Inr a' \<and>
         length (probs a') = 0 \<and> length (rewards a') = 0)"
proof (intro conjI)
  show "\<exists>a'. update example_torch
            ((example_agent 4 1)\<lparr>probs := replicate 1 (example_prob (- 1 / 2)),
                                  rewards := replicate 1 1\<rparr>) = Inr a' \<and>
         length (probs a') = 0 \<and> length (rewards a') = 0"
    by (rule update_clears_buffers[THEN conjunct2, THEN mp]) simp
  show "\<exists>a'. update example_torch
            ((example_agent 4 1)\<lparr>probs := replicate 10 (example_prob (- 1 / 2)),
                                  rewards := replicate 10 1\<rparr>) = Inr a' \<and>
         length (probs a') = 0 \<and> length (rewards a') = 0"
    by (rule update_clears_buffers[THEN conjunct2, THEN mp]) simp
  show "\<exists>a'. update example_torch
            ((example_agent 4 1)\<lparr>probs := replicate 500 (example_prob (- 1 / 2)),
                                  rewards := replicate 500 1\<rparr>) = Inr a' \<and>
         length (probs a') = 0 \<and> length (rewards a') = 0"
    by (rule update_clears_buffers[THEN conjunct2, THEN mp]) simp
qed

text \<open>
  C7. For an agent with the shape and hyperparameters its constructor gives it for
  \<open>obs_space_dims\<close> and \<open>action_space_dims\<close>, and an observation of \<open>obs_space_dims\<close>
  entries, \<^verbatim>\<open>sample_action\<close> returns, and the action it returns has \<open>action_space_dims\<close>
  entries. The witness takes the dimensions (4, 1), (8, 3) and (2, 2).
\<close>

theorem sample_action_length:
  assumes "configured obs_space_dims action_space_dims a"
    and "length state = obs_space_dims"
  shows "\<exists>action a' g'. sample_action lib a state g = Inr (action, a', g') \<and>
           length action = action_space_dims"
proof -
  from assms(1) have sh: "net_shape obs_space_dims action_space_dims (net a)"
    and e: "0 \<le> eps a"
    by (simp_all add: configured_def)
  show ?thesis using sh assms(2) e by (rule sample_action_total)
qed

theorem sample_action_length_witness:
  "(\<exists>action a' g'. sample_action example_torch (example_agent 4 1) [0, 0, 0, 0] 0
        = Inr (action, a', g') \<and> length action = 1) \<and>
   (\<exists>action a' g'. sample_action example_torch (example_agent 8 3) [0, 0, 0, 0, 0, 0, 0, 0] 0
        = Inr (action, a', g') \<and> length action = 3) \<and>
   (\<exists>action a' g'. sample_action example_torch (example_agent 2 2) [0, 0] 0
        = Inr (action, a', g') \<and> length action = 2)"
proof (intro conjI)
  have c: "configured n m (example_agent n m)" for n m
    unfolding example_agent_def by (rule REINFORCE_init_configured)
  show "\<exists>action a' g'. sample_action example_torch (example_agent 4 1) [0, 0, 0, 0] 0
        = Inr (action, a', g') \<and> length action = 1"
    by (rule sample_action_length[OF c]) simp
  show "\<exists>action a' g'. sample_action example_torch (example_agent 8 3) [0, 0, 0, 0, 0, 0, 0, 0] 0
        = Inr (action, a', g') \<and> length action = 3"
    by (rule sample_action_length[OF c]) simp
  show "\<exists>action a' g'. sample_action example_torch (example_agent 2 2) [0, 0] 0
        = Inr (action, a', g') \<and> length action = 2"
    by (rule sample_action_length[OF c]) simp
qed



text \<open>
  C9, as the specification states it: an observation of the wrong length makes the
  forward pass raise InvalidObservationShape. For the network of \<^verbatim>\<open>REINFORCE(4, 1)\<close> and
  an observation of three entries the exception is the \<^verbatim>\<open>RuntimeError\<close> of the first linear
  layer.
\<close>

theorem forward_shape_counterexample:
  "length [0, 0, 0 :: real] \<noteq> 4 \<and>
   forward (net (example_agent 4 1)) [0, 0, 0] = Inl RuntimeError \<and>
   forward (net (example_agent 4 1)) [0, 0, 0] \<noteq> Inl InvalidObservationShape"
  by (simp add: forward_shape(1)[OF example_agent_fields(4)])

text \<open>
  C9, amended. On a network of the constructor's shape, an observation whose length is
  not \<open>obs_space_dims\<close> makes the first linear layer raise \<^verbatim>\<open>RuntimeError\<close>, before anything
  else is computed, and \<^verbatim>\<open>sample_action\<close> ends with the same exception without appending to
  the log-prob buffer; an observation of \<open>obs_space_dims\<close> entries raises nothing in the
  forward pass.
\<close>

theorem forward_checks_observation_shape:
  assumes "net_shape obs_space_dims action_space_dims (net a)"
  shows "(length x \<noteq> obs_space_dims \<longrightarrow>
            forward (net a) x = Inl RuntimeError \<and> sample_action lib a x g = Inl RuntimeError) \<and>
         (length x = obs_space_dims \<longrightarrow>
            (\<exists>means stds. forward (net a) x = Inr (means, stds)))"
proof (intro conjI impI)
  assume "length x \<noteq> obs_space_dims"
  then show "forward (net a) x = Inl RuntimeError" "sample_action lib a x g = Inl RuntimeError"
    using assms by (simp_all add: forward_shape(1) sample_action_mismatch)
next
  assume "length x = obs_space_dims"
  with forward_shape(2)[OF assms]
  show "\<exists>means stds. forward (net a) x = Inr (means, stds)" by blast
qed

theorem forward_checks_observation_shape_witness:
  "forward (net (example_agent 4 1)) [0, 0, 0] = Inl RuntimeError \<and>
   sample_action example_torch (example_agent 4 1) [0, 0, 0] 0 = Inl RuntimeError \<and>
   forward (net (example_agent 4 1)) [0, 0, 0, 0, 0] = Inl RuntimeError \<and>
   (\<exists>means stds. forward (net (example_agent 4 1)) [0, 0, 0, 0] = Inr (means, stds))"
  using forward_checks_observation_shape[OF example_agent_fields(4), of "[0, 0, 0]" 4 1 example_torch 0]
    forward_checks_observation_shape[OF example_agent_fields(4), of "[0, 0, 0, 0, 0]" 4 1 example_torch 0]
    forward_checks_observation_shape[OF example_agent_fields(4), of "[0, 0, 0, 0]" 4 1 example_torch 0]
  by simp

text \<open>
  C10. With two buffers that are not empty and differ in length, \<^verbatim>\<open>update\<close> raises
  nothing: the loss is a tensor, the optimiser step is applied to the terms that pair
  the first \<open>min\<close> entries of \<open>probs\<close> with the returns of the first \<open>min\<close> steps (each
  return still sums all the rewards that follow its step), both buffers are emptied, and
  the loss is the negative sum over these \<open>min\<close> steps.
\<close>

theorem update_unequal_lengths:
  assumes "probs a \<noteq> []" and "rewards a \<noteq> []"
    and "length (probs a) \<noteq> length (rewards a)"
  shows "(\<exists>v. update_loss a = Tensor v) \<and>
         update lib a =
           Inr (a\<lparr>probs := [], rewards := [],
                  net := fst (step lib (zip (probs a) (discounted_returns (gamma a) (rewards a)))
                               (net a, optimizer a)),
                  optimizer := snd (step lib (zip (probs a) (discounted_returns (gamma a) (rewards a)))
                               (net a, optimizer a))\<rparr>) \<and>
         zip (probs a) (discounted_returns (gamma a) (rewards a)) =
           zip (take (min (length (probs a)) (length (rewards a))) (probs a))
               (map (return_to_go (gamma a) (rewards a))
                  [0..<min (length (probs a)) (length (rewards a))]) \<and>
         ((\<forall>p \<in> set (probs a). data p \<noteq> []) \<longrightarrow>
            update_loss a =
              Tensor (- (\<Sum>t<min (length (probs a)) (length (rewards a)).
                     tensor_mean (data (probs a ! t)) * return_to_go (gamma a) (rewards a) t)))"
proof (intro conjI impI)
  show "\<exists>v. update_loss a = Tensor v"
    using assms(1,2) by (simp add: update_loss_value)
  show "update lib a =
           Inr (a\<lparr>probs := [], rewards := [],
                  net := fst (step lib (zip (probs a) (discounted_returns (gamma a) (rewards a)))
                               (net a, optimizer a)),
                  optimizer := snd (step lib (zip (probs a) (discounted_returns (gamma a) (rewards a)))
                               (net a, optimizer a))\<rparr>)"
    using assms(1,2) by (simp add: update_cases)
  show "zip (probs a) (discounted_returns (gamma a) (rewards a)) =
           zip (take (min (length (probs a)) (length (rewards a))) (probs a))
               (map (return_to_go (gamma a) (rewards a))
                  [0..<min (length (probs a)) (length (rewards a))])"
  proof -
    let ?m = "min (length (probs a)) (length (rewards a))"
    let ?gs = "discounted_returns (gamma a) (rewards a)"
    have "zip (probs a) ?gs = take ?m (zip (probs a) ?gs)"
      by (simp add: length_discounted_returns)
    also have "\<dots> = zip (take ?m (probs a)) (take ?m ?gs)"
      by (rule take_zip)
    also have "take ?m ?gs = map (return_to_go (gamma a) (rewards a)) [0..<?m]"
      by (simp add: discounted_returns_closed take_map min_def)
    finally show ?thesis .
  qed
  show "update_loss a =
              Tensor (- (\<Sum>t<min (length (probs a)) (length (rewards a)).
                     tensor_mean (data (probs a ! t)) * return_to_go (gamma a) (rewards a) t))"
    using assms(1,2) by (simp add: update_loss_value)
qed

theorem update_unequal_lengths_witness:
  "update example_torch
     ((example_agent 4 1)\<lparr>probs := [example_prob (- 1 / 2), example_prob (- 3 / 10)],
                           rewards := [0, 0, 10]\<rparr>) =
     Inr ((example_agent 4 1)\<lparr>probs := [], rewards := [], optimizer := 1\<rparr>) \<and>
   update_loss
     ((example_agent 4 1)\<lparr>probs := [example_prob (- 1 / 2), example_prob (- 3 / 10)],
                           rewards := [0, 0, 10]\<rparr>) = Tensor (78705 / 10000)"
proof -
  let ?a = "(example_agent 4 1)\<lparr>probs := [example_prob (- 1 / 2), example_prob (- 3 / 10)],
                           rewards := [0, 0, 10]\<rparr>"
  have h1: "probs ?a \<noteq> []" and h2: "rewards ?a \<noteq> []"
    and h3: "length (probs ?a) \<noteq> length (rewards ?a)" by simp_all
  have h4: "\<forall>p \<in> set (probs ?a). data p \<noteq> []" by (simp add: example_prob_def)
  have g: "gamma ?a = 99 / 100" by (simp add: example_agent_def REINFORCE_init_fields)
  have o: "optimizer (example_agent 4 1) = 0"
    by (simp add: example_agent_def REINFORCE_init_def split_beta Let_def example_torch_def)
  have s2: "{..<2::nat} = {0, 1}" by auto
  have r0: "{0..<3::nat} = {0, 1, 2}" and r1: "{Suc 0..<3::nat} = {1, 2}" by auto
  note u = update_unequal_lengths[OF h1 h2 h3, of example_torch]
  from u have "update example_torch ?a =
      Inr (?a\<lparr>probs := [], rewards := [],
              net := fst (step example_torch (zip (probs ?a) (discounted_returns (gamma ?a) (rewards ?a)))
                               (net ?a, optimizer ?a)),
              optimizer := snd (step example_torch (zip (probs ?a) (discounted_returns (gamma ?a) (rewards ?a)))
                               (net ?a, optimizer ?a))\<rparr>)"
    by blast
  then have 1: "update example_torch ?a =
      Inr ((example_agent 4 1)\<lparr>probs := [], rewards := [], optimizer := 1\<rparr>)"
    using o by (simp add: example_torch_def)
  from u h4 have "update_loss ?a =
      Tensor (- (\<Sum>t<min (length (probs ?a)) (length (rewards ?a)).
                     tensor_mean (data (probs ?a ! t)) * return_to_go (gamma ?a) (rewards ?a) t))"
    by blast
  also have "\<dots> = Tensor (78705 / 10000)"
    unfolding g by (simp add: s2 r0 r1 return_to_go_def example_prob_def tensor_mean_def)
  finally show ?thesis using 1 by simp
qed

end
